theory Spec2Isabelle
  imports Main "HOL-Library.Sublist" "HOL-Library.Multiset" "HOL-Library.Word"
begin

section \<open>The SoroScan TypeScript SDK: request pipeline of \<open>client.ts\<close>\<close>

text \<open>
  The theory embeds \<^verbatim>\<open>src/sdk/typescript/src/client.ts\<close>: the constructor of
  \<^verbatim>\<open>SoroScanClient\<close>, the helper \<^verbatim>\<open>toQueryString\<close>, the private operation
  \<^verbatim>\<open>#request\<close>, the error class \<^verbatim>\<open>SoroScanError\<close> and the thirteen public
  methods. The network (\<^verbatim>\<open>fetch\<close>) is the environment: a function that takes the
  request and the state of the world and returns what the awaited promise settles to,
  with the new state of the world.

  Conventions of the model.
  \<^item> A JavaScript string is the list of the bytes of its UTF-8 form, so every string
    of the model is well-formed Unicode text (a lone surrogate, on which
    \<^verbatim>\<open>encodeURIComponent\<close> raises \<^verbatim>\<open>URIError\<close>, has no UTF-8 form).
  \<^item> A JavaScript number is a safe integer, of magnitude below \<open>2^53\<close>,
    \<^verbatim>\<open>NaN\<close>, an infinity, or any other number (a fraction, a number of larger
    magnitude). The pipeline does nothing with a number but print it, so a number of
    the last kind is given by the text that \<^verbatim>\<open>String\<close> prints for it.
  \<^item> An object is the list of its own enumerable properties in the order of their
    creation; its keys are distinct. The objects are plain data, as \<^verbatim>\<open>JSON.parse\<close>
    or a literal of data makes them: no property is a function.
  \<^item> The values of a bag of query parameters are of the types that
    \<^verbatim>\<open>GetEventsParams\<close>, \<^verbatim>\<open>GetContractsParams\<close>, \<^verbatim>\<open>GetTransactionsParams\<close> and
    \<^verbatim>\<open>GetLedgersParams\<close> declare for their fields (string, number, boolean, or
    absent), and \<^verbatim>\<open>null\<close>, which the code tests for.
\<close>

subsection \<open>Numbers\<close>

text \<open>
  \<open>SafeInteger neg m\<close> is the integer of magnitude \<open>m\<close>, negative if \<open>neg\<close>
  (\<open>SafeInteger True 0\<close> is the negative zero). \<open>Infinity neg\<close> is the infinity,
  negative if \<open>neg\<close>. \<open>OtherNumber s\<close> is a number of none of these kinds, which
  \<^verbatim>\<open>String\<close> prints as \<open>s\<close>: \<^verbatim>\<open>1.5\<close>, or \<^verbatim>\<open>1e+21\<close> for the number
  \<^verbatim>\<open>1e21\<close>.
\<close>

datatype number = SafeInteger bool "53 word" | NaN | Infinity bool | OtherNumber string

text \<open>
  Decimal text of a natural number, most significant digit first; \<open>digit_char\<close> is
  applied to values below 10.
\<close>

definition digit_char :: "nat \<Rightarrow> char" where
  "digit_char d = ''0123456789'' ! d"

function dec_nat :: "nat \<Rightarrow> string" where
  "dec_nat n = (if n < 10 then [digit_char n] else dec_nat (n div 10) @ [digit_char (n mod 10)])"
  by pat_completeness auto
termination
  by (relation "measure id") auto

declare dec_nat.simps [simp del]

text \<open>
  \<^verbatim>\<open>Number.prototype.toString\<close>, which \<^verbatim>\<open>String(n)\<close> and a template literal apply to
  a number: a safe integer prints as its decimal digits, after a minus sign if it is
  negative and not zero; \<^verbatim>\<open>NaN\<close> and the infinities print as their names.
\<close>

fun number_to_string :: "number \<Rightarrow> string" where
  "number_to_string (SafeInteger neg m) =
     (if neg \<and> m \<noteq> 0 then CHR ''-'' # dec_nat (unat m) else dec_nat (unat m))"
| "number_to_string NaN = ''NaN''"
| "number_to_string (Infinity neg) = (if neg then ''-Infinity'' else ''Infinity'')"
| "number_to_string (OtherNumber s) = s"

subsection \<open>JavaScript values\<close>

datatype jsval =
    JUndefined
  | JNull
  | JBool bool
  | JNum number
  | JStr string
  | JArr "jsval list"
  | JObj "(string \<times> jsval) list"

text \<open>
  What a \<^verbatim>\<open>throw\<close> or a rejected promise carries: an \<^verbatim>\<open>Error\<close> object with its
  \<^verbatim>\<open>name\<close> and \<^verbatim>\<open>message\<close> (a \<^verbatim>\<open>TypeError\<close>, a \<^verbatim>\<open>DOMException\<close>, a plain
  \<^verbatim>\<open>Error\<close>), a \<^verbatim>\<open>SoroScanError\<close> (lines 26 to 38: \<^verbatim>\<open>statusCode\<close>, \<^verbatim>\<open>code\<close>,
  \<^verbatim>\<open>message\<close>, \<^verbatim>\<open>details\<close>; its \<^verbatim>\<open>name\<close> is \<^verbatim>\<open>SoroScanError\<close>), the
  \<^verbatim>\<open>TypeError\<close> that the language raises when an object cannot be converted to a
  primitive value (its message is the engine's), or a value that is not an
  \<^verbatim>\<open>Error\<close>. A \<^verbatim>\<open>DOMException\<close> is an instance of \<^verbatim>\<open>Error\<close>. The static type of
  \<^verbatim>\<open>code\<close> is \<^verbatim>\<open>string\<close>, but the constructor stores whatever the given object
  holds, so the field is a \<open>jsval\<close>.
\<close>

datatype exn =
    Error string string
  | SoroScanError "16 word" jsval string jsval
  | CannotConvertTypeError
  | NonError jsval

text \<open>\<^verbatim>\<open>Array.prototype.join\<close> on strings.\<close>

fun join :: "string \<Rightarrow> string list \<Rightarrow> string" where
  "join sep [] = []"
| "join sep [x] = x"
| "join sep (x # y # ys) = x @ sep @ join sep (y # ys)"

text \<open>
  \<^verbatim>\<open>String(v)\<close>, the abstract operation ToString. An object is converted by the
  first of its methods \<^verbatim>\<open>toString\<close> and \<^verbatim>\<open>valueOf\<close> that is a function and returns
  a primitive value. A plain object with no property \<^verbatim>\<open>toString\<close> of its own
  inherits the one that returns \<^verbatim>\<open>[object Object]\<close>. One with such a property has
  no function there (its properties are data), and \<^verbatim>\<open>valueOf\<close>, its own or the
  inherited one, is no function or returns the object: the conversion throws a
  \<^verbatim>\<open>TypeError\<close>. An array is converted by \<^verbatim>\<open>join\<close>: its elements from left to
  right, \<^verbatim>\<open>undefined\<close> and \<^verbatim>\<open>null\<close> as the empty string, joined by commas; the
  first element that throws ends the conversion.
\<close>

fun js_String :: "jsval \<Rightarrow> exn + string"
  and js_String_elements :: "jsval list \<Rightarrow> exn + string list" where
  "js_String JUndefined = Inr ''undefined''"
| "js_String JNull = Inr ''null''"
| "js_String (JBool b) = Inr (if b then ''true'' else ''false'')"
| "js_String (JNum n) = Inr (number_to_string n)"
| "js_String (JStr s) = Inr s"
| "js_String (JArr xs) =
     (case js_String_elements xs of Inl e \<Rightarrow> Inl e | Inr ss \<Rightarrow> Inr (join '','' ss))"
| "js_String (JObj kvs) =
     (if ''toString'' \<in> set (map fst kvs) then Inl CannotConvertTypeError
      else Inr ''[object Object]'')"
| "js_String_elements [] = Inr []"
| "js_String_elements (x # xs) =
     (case (if x = JUndefined \<or> x = JNull then Inr [] else js_String x) of
        Inl e \<Rightarrow> Inl e
      | Inr s \<Rightarrow> (case js_String_elements xs of Inl e \<Rightarrow> Inl e | Inr ss \<Rightarrow> Inr (s # ss)))"

text \<open>
  Reading a data property \<^verbatim>\<open>v.k\<close> for a key that no prototype defines (the pipeline
  reads \<^verbatim>\<open>code\<close>, \<^verbatim>\<open>message\<close> and \<^verbatim>\<open>details\<close> only): an object yields its own
  property, every other value yields \<^verbatim>\<open>undefined\<close>. The operation is applied to
  values other than \<^verbatim>\<open>undefined\<close> and \<^verbatim>\<open>null\<close> only.
\<close>

fun js_get :: "jsval \<Rightarrow> string \<Rightarrow> jsval" where
  "js_get (JObj kvs) k = (case map_of kvs k of None \<Rightarrow> JUndefined | Some v \<Rightarrow> v)"
| "js_get v k = JUndefined"

text \<open>
  The value of a query parameter, and \<^verbatim>\<open>String(v)\<close> on it, which cannot throw.
\<close>

datatype param = PUndefined | PNull | PBool bool | PNum number | PStr string

fun String_param :: "param \<Rightarrow> string" where
  "String_param PUndefined = ''undefined''"
| "String_param PNull = ''null''"
| "String_param (PBool b) = (if b then ''true'' else ''false'')"
| "String_param (PNum n) = number_to_string n"
| "String_param (PStr s) = s"

subsection \<open>Percent-encoding\<close>

text \<open>The hexadecimal digit of a value below 16.\<close>

definition hex_digit :: "nat \<Rightarrow> char" where
  "hex_digit d = ''0123456789ABCDEF'' ! d"

text \<open>One byte as \<^verbatim>\<open>%XX\<close>, upper-case hexadecimal.\<close>

definition percent_byte :: "char \<Rightarrow> string" where
  "percent_byte c = [CHR ''%'', hex_digit (of_char c div 16), hex_digit (of_char c mod 16)]"

definition is_alnum :: "char \<Rightarrow> bool" where
  "is_alnum c \<longleftrightarrow>
     (let n = (of_char c :: nat) in (48 \<le> n \<and> n \<le> 57) \<or> (65 \<le> n \<and> n \<le> 90) \<or> (97 \<le> n \<and> n \<le> 122))"

text \<open>
  \<^verbatim>\<open>encodeURIComponent\<close>: every byte of the UTF-8 form is escaped, except the
  letters, the digits and \<^verbatim>\<open>- _ . ! ~ * ' ( )\<close>.
\<close>

definition uri_unreserved :: "char \<Rightarrow> bool" where
  "uri_unreserved c \<longleftrightarrow> is_alnum c \<or> c \<in> set ''-_.!~*'' \<or> c = CHR 0x27 \<or> c \<in> set ''()''"

definition encodeURIComponent :: "string \<Rightarrow> string" where
  "encodeURIComponent s = concat (map (\<lambda>c. if uri_unreserved c then [c] else percent_byte c) s)"

text \<open>
  \<^verbatim>\<open>URLSearchParams.prototype.toString\<close>, the application/x-www-form-urlencoded
  serializer of the URL standard: a space becomes \<^verbatim>\<open>+\<close>, the letters, the digits and
  \<^verbatim>\<open>* - . _\<close> stay, every other byte is escaped; a pair is \<^verbatim>\<open>name=value\<close>, pairs are
  joined by \<^verbatim>\<open>&\<close>.
\<close>

definition form_byte :: "char \<Rightarrow> string" where
  "form_byte c =
     (if c = CHR '' '' then ''+''
      else if is_alnum c \<or> c \<in> set ''*-._'' then [c]
      else percent_byte c)"

definition form_urlencode :: "string \<Rightarrow> string" where
  "form_urlencode s = concat (map form_byte s)"

definition URLSearchParams_toString :: "(string \<times> string) list \<Rightarrow> string" where
  "URLSearchParams_toString ps =
     join ''&'' (map (\<lambda>(k, v). form_urlencode k @ ''='' @ form_urlencode v) ps)"

subsection \<open>Decimal notation and array indices\<close>

text \<open>The number that a string of decimal digits denotes.\<close>

definition decimal_value :: "string \<Rightarrow> nat" where
  "decimal_value s = foldl (\<lambda>a ch. 10 * a + (of_char ch - 48)) 0 s"

definition is_digit :: "char \<Rightarrow> bool" where
  "is_digit c \<longleftrightarrow> c \<in> set ''0123456789''"

text \<open>
  \<open>decimal_text s n\<close>: the string \<open>s\<close> is the decimal notation of \<open>n\<close>, that is
  digits, at least one, with no leading zero unless it is \<^verbatim>\<open>0\<close> itself, of value
  \<open>n\<close>.
\<close>

definition decimal_text :: "string \<Rightarrow> nat \<Rightarrow> bool" where
  "decimal_text s n \<longleftrightarrow>
     s \<noteq> [] \<and> list_all is_digit s \<and> (hd s \<noteq> CHR ''0'' \<or> s = ''0'') \<and> decimal_value s = n"

text \<open>
  An array index of the language: a key that is the decimal notation of an integer
  from 0 to \<open>2^32 - 2\<close>.
\<close>

definition is_array_index :: "string \<Rightarrow> bool" where
  "is_array_index k \<longleftrightarrow> decimal_text k (decimal_value k) \<and> decimal_value k < 4294967295"

text \<open>
  \<^verbatim>\<open>Object.entries\<close>: the properties whose key is an array index come first, in
  ascending order of the index, then the other properties in the order of their
  creation.
\<close>

definition Object_entries :: "(string \<times> 'v) list \<Rightarrow> (string \<times> 'v) list" where
  "Object_entries props =
     sort_key (\<lambda>(k, v). decimal_value k) (filter (\<lambda>(k, v). is_array_index k) props)
     @ filter (\<lambda>(k, v). \<not> is_array_index k) props"

subsection \<open>The error class, lines 26 to 38\<close>

text \<open>
  The constructor of \<^verbatim>\<open>SoroScanError\<close>. \<^verbatim>\<open>super(apiError.message)\<close> leaves the
  message empty when the argument is \<^verbatim>\<open>undefined\<close> and applies ToString otherwise;
  if that throws, the constructor throws (\<open>Inl\<close>) and no error object is made.
\<close>

definition new_SoroScanError :: "16 word \<Rightarrow> jsval \<Rightarrow> exn + exn" where
  "new_SoroScanError statusCode apiError =
     (case (let m = js_get apiError ''message'' in if m = JUndefined then Inr [] else js_String m) of
        Inl e \<Rightarrow> Inl e
      | Inr msg \<Rightarrow>
          Inr (SoroScanError statusCode (js_get apiError ''code'') msg (js_get apiError ''details'')))"

subsection \<open>The client and its constructor\<close>

record config =
  baseUrl :: string
  apiKey :: "string option"
  timeoutMs :: "number option"

record client =
  priv_baseUrl :: string
  priv_apiKey :: "string option"
  priv_timeoutMs :: number

text \<open>\<^verbatim>\<open>s.replace(/\/$/, "")\<close>: one slash at the very end of the string is removed.\<close>

definition strip_trailing_slash :: "string \<Rightarrow> string" where
  "strip_trailing_slash s = (if s \<noteq> [] \<and> last s = CHR ''/'' then butlast s else s)"

text \<open>Lines 61 to 68. The empty string is the only falsy string.\<close>

definition new_SoroScanClient :: "config \<Rightarrow> exn + client" where
  "new_SoroScanClient cfg =
     (if baseUrl cfg = [] then Inl (Error ''Error'' ''SoroScanClient: baseUrl is required'')
      else Inr \<lparr> priv_baseUrl = strip_trailing_slash (baseUrl cfg),
                 priv_apiKey = apiKey cfg,
                 priv_timeoutMs = (case timeoutMs cfg of None \<Rightarrow> SafeInteger False 30000 | Some t \<Rightarrow> t) \<rparr>)"

subsection \<open>The environment: \<^verbatim>\<open>fetch\<close>\<close>

datatype http_method = GET | POST | PATCH | DELETE

text \<open>
  The \<^verbatim>\<open>RequestInit\<close> that \<^verbatim>\<open>#request\<close> builds. \<open>init_signal\<close> stands for
  \<^verbatim>\<open>controller.signal\<close> with its timer: the delay, in milliseconds, that the timer
  is armed with. \<open>init_body = Some v\<close> says that the body is the text
  \<^verbatim>\<open>JSON.stringify(v)\<close>; \<open>None\<close> that no body is set.
\<close>

record request_init =
  init_method :: http_method
  init_headers :: "(string \<times> string) list"
  init_signal :: number
  init_body :: "jsval option"

text \<open>
  A \<^verbatim>\<open>Response\<close>, as far as the pipeline reads it. The status is an
  \<^verbatim>\<open>unsigned short\<close>. \<open>json_body\<close> is what \<^verbatim>\<open>response.json()\<close> resolves to,
  \<open>None\<close> when it rejects (the body is not JSON).
\<close>

record response =
  status :: "16 word"
  statusText :: string
  json_body :: "jsval option"

text \<open>\<^verbatim>\<open>response.ok\<close>, by the Fetch standard: the status is in the range 200 to 299.\<close>

definition ok :: "response \<Rightarrow> bool" where
  "ok r \<longleftrightarrow> 200 \<le> status r \<and> status r \<le> 299"

datatype fetch_result = Rejected exn | Fulfilled response

text \<open>
  \<^verbatim>\<open>fetch(url, init)\<close>, awaited: the world \<open>'w\<close> is everything outside the client
  (the network, the server, the clock).
\<close>

type_synonym 'w fetch = "string \<Rightarrow> request_init \<Rightarrow> 'w \<Rightarrow> fetch_result \<times> 'w"

subsection \<open>\<^verbatim>\<open>toQueryString\<close>, lines 44 to 50\<close>

text \<open>
  The argument is the bag of parameters, its properties in the order of their
  creation; \<^verbatim>\<open>new URLSearchParams(pairs)\<close> keeps the pairs in their order.
\<close>

definition toQueryString :: "(string \<times> param) list \<Rightarrow> string" where
  "toQueryString params =
     (let entries = filter (\<lambda>(k, v). v \<noteq> PUndefined \<and> v \<noteq> PNull) (Object_entries params)
      in if length entries = 0 then []
         else CHR ''?'' # URLSearchParams_toString (map (\<lambda>(k, v). (k, String_param v)) entries))"

subsection \<open>\<^verbatim>\<open>#request\<close>, lines 72 to 132\<close>

text \<open>
  The third argument of \<^verbatim>\<open>#request\<close>. \<open>query = None\<close> is an absent (falsy)
  \<^verbatim>\<open>query\<close>; every object is truthy, also the empty one. \<open>body = JUndefined\<close> is an
  absent \<^verbatim>\<open>body\<close>.
\<close>

record options =
  query :: "(string \<times> param) list option"
  body :: jsval

text \<open>Lines 80 to 83.\<close>

definition request_url :: "client \<Rightarrow> string \<Rightarrow> options \<Rightarrow> string" where
  "request_url c path opts =
     priv_baseUrl c @ path @ (case query opts of None \<Rightarrow> [] | Some q \<Rightarrow> toQueryString q)"

text \<open>Lines 85 to 91. The guard is the truthiness of the key: the empty string is falsy.\<close>

definition request_headers :: "client \<Rightarrow> (string \<times> string) list" where
  "request_headers c =
     [(''Content-Type'', ''application/json''), (''Accept'', ''application/json'')] @
     (case priv_apiKey c of
        None \<Rightarrow> []
      | Some k \<Rightarrow> if k = [] then [] else [(''Authorization'', ''Bearer '' @ k)])"

text \<open>Lines 93 to 105.\<close>

definition request_init_of :: "client \<Rightarrow> http_method \<Rightarrow> options \<Rightarrow> request_init" where
  "request_init_of c method opts =
     \<lparr> init_method = method,
       init_headers = request_headers c,
       init_signal = priv_timeoutMs c,
       init_body = (if body opts \<noteq> JUndefined then Some (body opts) else None) \<rparr>"

text \<open>Line 108: \<^verbatim>\<open>err instanceof Error && err.name === "AbortError"\<close>.\<close>

fun is_AbortError :: "exn \<Rightarrow> bool" where
  "is_AbortError (Error name msg) = (name = ''AbortError'')"
| "is_AbortError (SoroScanError statusCode code msg details) = False"
| "is_AbortError CannotConvertTypeError = False"
| "is_AbortError (NonError v) = False"

text \<open>Line 109.\<close>

definition timeout_error :: "client \<Rightarrow> exn" where
  "timeout_error c =
     Error ''Error''
       (''SoroScanClient: request timed out after '' @ number_to_string (priv_timeoutMs c) @ ''ms'')"

text \<open>
  Lines 124 to 127, the object after \<^verbatim>\<open>??\<close>. The status is printed as the number
  it is, in decimal.
\<close>

definition fallback_apiError :: "response \<Rightarrow> jsval" where
  "fallback_apiError r =
     JObj [(''code'', JStr ''UNKNOWN_ERROR''),
           (''message'', JStr (''HTTP '' @ dec_nat (unat (status r)) @ '' '' @ statusText r))]"

text \<open>
  Lines 107 to 131: what \<^verbatim>\<open>#request\<close> does with the settled promise of
  \<^verbatim>\<open>fetch\<close>. \<open>Inl\<close> is a rejection of the returned promise, \<open>Inr\<close> its value.
  Line 128 throws the error that the constructor returns, or what the constructor
  throws.
\<close>

definition on_settled :: "client \<Rightarrow> fetch_result \<Rightarrow> exn + jsval" where
  "on_settled c res =
     (case res of
        Rejected err \<Rightarrow> if is_AbortError err then Inl (timeout_error c) else Inl err
      | Fulfilled r \<Rightarrow>
          if status r = 204 then Inr JUndefined
          else
            let json = (case json_body r of None \<Rightarrow> JNull | Some v \<Rightarrow> v)
            in if \<not> ok r
               then (case new_SoroScanError (status r)
                            (if json = JUndefined \<or> json = JNull then fallback_apiError r else json) of
                       Inl thrown \<Rightarrow> Inl thrown
                     | Inr apiError \<Rightarrow> Inl apiError)
               else Inr json)"

definition request ::
  "client \<Rightarrow> 'w fetch \<Rightarrow> http_method \<Rightarrow> string \<Rightarrow> options \<Rightarrow> 'w \<Rightarrow> (exn + jsval) \<times> 'w" where
  "request c fetch method path opts w =
     (let url = request_url c path opts;
          init = request_init_of c method opts;
          (res, w') = fetch url init w
      in (on_settled c res, w'))"

subsection \<open>The public methods, lines 143 to 289\<close>

definition no_options :: options where
  "no_options = \<lparr> query = None, body = JUndefined \<rparr>"

definition getEvents :: "client \<Rightarrow> 'w fetch \<Rightarrow> (string \<times> param) list \<Rightarrow> 'w \<Rightarrow> (exn + jsval) \<times> 'w" where
  "getEvents c fetch params = request c fetch GET ''/v1/events'' \<lparr> query = Some params, body = JUndefined \<rparr>"

definition getContracts :: "client \<Rightarrow> 'w fetch \<Rightarrow> (string \<times> param) list \<Rightarrow> 'w \<Rightarrow> (exn + jsval) \<times> 'w" where
  "getContracts c fetch params = request c fetch GET ''/v1/contracts'' \<lparr> query = Some params, body = JUndefined \<rparr>"

definition getContract :: "client \<Rightarrow> 'w fetch \<Rightarrow> string \<Rightarrow> 'w \<Rightarrow> (exn + jsval) \<times> 'w" where
  "getContract c fetch contractId =
     request c fetch GET (''/v1/contracts/'' @ encodeURIComponent contractId) no_options"

definition getTransactions :: "client \<Rightarrow> 'w fetch \<Rightarrow> (string \<times> param) list \<Rightarrow> 'w \<Rightarrow> (exn + jsval) \<times> 'w" where
  "getTransactions c fetch params =
     request c fetch GET ''/v1/transactions'' \<lparr> query = Some params, body = JUndefined \<rparr>"

definition getTransaction :: "client \<Rightarrow> 'w fetch \<Rightarrow> string \<Rightarrow> 'w \<Rightarrow> (exn + jsval) \<times> 'w" where
  "getTransaction c fetch txHash =
     request c fetch GET (''/v1/transactions/'' @ encodeURIComponent txHash) no_options"

definition getLedgers :: "client \<Rightarrow> 'w fetch \<Rightarrow> (string \<times> param) list \<Rightarrow> 'w \<Rightarrow> (exn + jsval) \<times> 'w" where
  "getLedgers c fetch params = request c fetch GET ''/v1/ledgers'' \<lparr> query = Some params, body = JUndefined \<rparr>"

definition getLedger :: "client \<Rightarrow> 'w fetch \<Rightarrow> number \<Rightarrow> 'w \<Rightarrow> (exn + jsval) \<times> 'w" where
  "getLedger c fetch sequence =
     request c fetch GET (''/v1/ledgers/'' @ number_to_string sequence) no_options"

definition getAccount :: "client \<Rightarrow> 'w fetch \<Rightarrow> string \<Rightarrow> 'w \<Rightarrow> (exn + jsval) \<times> 'w" where
  "getAccount c fetch accountId =
     request c fetch GET (''/v1/accounts/'' @ encodeURIComponent accountId) no_options"

definition subscribeWebhook :: "client \<Rightarrow> 'w fetch \<Rightarrow> jsval \<Rightarrow> 'w \<Rightarrow> (exn + jsval) \<times> 'w" where
  "subscribeWebhook c fetch params = request c fetch POST ''/v1/webhooks'' \<lparr> query = None, body = params \<rparr>"

definition listWebhooks :: "client \<Rightarrow> 'w fetch \<Rightarrow> 'w \<Rightarrow> (exn + jsval) \<times> 'w" where
  "listWebhooks c fetch = request c fetch GET ''/v1/webhooks'' no_options"

definition getWebhook :: "client \<Rightarrow> 'w fetch \<Rightarrow> string \<Rightarrow> 'w \<Rightarrow> (exn + jsval) \<times> 'w" where
  "getWebhook c fetch webhookId =
     request c fetch GET (''/v1/webhooks/'' @ encodeURIComponent webhookId) no_options"

definition updateWebhook :: "client \<Rightarrow> 'w fetch \<Rightarrow> string \<Rightarrow> jsval \<Rightarrow> 'w \<Rightarrow> (exn + jsval) \<times> 'w" where
  "updateWebhook c fetch webhookId params =
     request c fetch PATCH (''/v1/webhooks/'' @ encodeURIComponent webhookId)
       \<lparr> query = None, body = params \<rparr>"

definition deleteWebhook :: "client \<Rightarrow> 'w fetch \<Rightarrow> string \<Rightarrow> 'w \<Rightarrow> (exn + jsval) \<times> 'w" where
  "deleteWebhook c fetch webhookId =
     request c fetch DELETE (''/v1/webhooks/'' @ encodeURIComponent webhookId) no_options"

subsection \<open>Calls, sequences of calls, and a program that constructs a client\<close>

text \<open>One constructor for each public method, with the method's arguments.\<close>

datatype api_call =
    GetEvents "(string \<times> param) list"
  | GetContracts "(string \<times> param) list"
  | GetContract string
  | GetTransactions "(string \<times> param) list"
  | GetTransaction string
  | GetLedgers "(string \<times> param) list"
  | GetLedger number
  | GetAccount string
  | SubscribeWebhook jsval
  | ListWebhooks
  | GetWebhook string
  | UpdateWebhook string jsval
  | DeleteWebhook string

fun invoke :: "client \<Rightarrow> 'w fetch \<Rightarrow> api_call \<Rightarrow> 'w \<Rightarrow> (exn + jsval) \<times> 'w" where
  "invoke c fetch (GetEvents params) = getEvents c fetch params"
| "invoke c fetch (GetContracts params) = getContracts c fetch params"
| "invoke c fetch (GetContract contractId) = getContract c fetch contractId"
| "invoke c fetch (GetTransactions params) = getTransactions c fetch params"
| "invoke c fetch (GetTransaction txHash) = getTransaction c fetch txHash"
| "invoke c fetch (GetLedgers params) = getLedgers c fetch params"
| "invoke c fetch (GetLedger sequence) = getLedger c fetch sequence"
| "invoke c fetch (GetAccount accountId) = getAccount c fetch accountId"
| "invoke c fetch (SubscribeWebhook params) = subscribeWebhook c fetch params"
| "invoke c fetch ListWebhooks = listWebhooks c fetch"
| "invoke c fetch (GetWebhook webhookId) = getWebhook c fetch webhookId"
| "invoke c fetch (UpdateWebhook webhookId params) = updateWebhook c fetch webhookId params"
| "invoke c fetch (DeleteWebhook webhookId) = deleteWebhook c fetch webhookId"

text \<open>
  The method, path and options that each public method hands to \<^verbatim>\<open>#request\<close>, read
  off the method bodies; \<open>invoke_request\<close> below proves that they are the ones.
\<close>

fun call_method :: "api_call \<Rightarrow> http_method" where
  "call_method (SubscribeWebhook params) = POST"
| "call_method (UpdateWebhook webhookId params) = PATCH"
| "call_method (DeleteWebhook webhookId) = DELETE"
| "call_method call = GET"

fun call_path :: "api_call \<Rightarrow> string" where
  "call_path (GetEvents params) = ''/v1/events''"
| "call_path (GetContracts params) = ''/v1/contracts''"
| "call_path (GetContract contractId) = ''/v1/contracts/'' @ encodeURIComponent contractId"
| "call_path (GetTransactions params) = ''/v1/transactions''"
| "call_path (GetTransaction txHash) = ''/v1/transactions/'' @ encodeURIComponent txHash"
| "call_path (GetLedgers params) = ''/v1/ledgers''"
| "call_path (GetLedger sequence) = ''/v1/ledgers/'' @ number_to_string sequence"
| "call_path (GetAccount accountId) = ''/v1/accounts/'' @ encodeURIComponent accountId"
| "call_path (SubscribeWebhook params) = ''/v1/webhooks''"
| "call_path ListWebhooks = ''/v1/webhooks''"
| "call_path (GetWebhook webhookId) = ''/v1/webhooks/'' @ encodeURIComponent webhookId"
| "call_path (UpdateWebhook webhookId params) = ''/v1/webhooks/'' @ encodeURIComponent webhookId"
| "call_path (DeleteWebhook webhookId) = ''/v1/webhooks/'' @ encodeURIComponent webhookId"

fun call_options :: "api_call \<Rightarrow> options" where
  "call_options (GetEvents params) = \<lparr> query = Some params, body = JUndefined \<rparr>"
| "call_options (GetContracts params) = \<lparr> query = Some params, body = JUndefined \<rparr>"
| "call_options (GetTransactions params) = \<lparr> query = Some params, body = JUndefined \<rparr>"
| "call_options (GetLedgers params) = \<lparr> query = Some params, body = JUndefined \<rparr>"
| "call_options (SubscribeWebhook params) = \<lparr> query = None, body = params \<rparr>"
| "call_options (UpdateWebhook webhookId params) = \<lparr> query = None, body = params \<rparr>"
| "call_options call = no_options"

text \<open>Calls made one after the other on the same client, each awaited before the next.\<close>

fun run :: "client \<Rightarrow> 'w fetch \<Rightarrow> api_call list \<Rightarrow> 'w \<Rightarrow> (exn + jsval) list \<times> 'w" where
  "run c fetch [] w = ([], w)"
| "run c fetch (call # calls) w =
     (let (r, w') = invoke c fetch call w;
          (rs, w'') = run c fetch calls w'
      in (r # rs, w''))"

text \<open>
  A program that constructs a client and then makes the calls. The constructor throws
  synchronously: then nothing after it runs.
\<close>

definition session ::
  "config \<Rightarrow> 'w fetch \<Rightarrow> api_call list \<Rightarrow> 'w \<Rightarrow> (exn + (exn + jsval) list) \<times> 'w" where
  "session cfg fetch calls w =
     (case new_SoroScanClient cfg of
        Inl e \<Rightarrow> (Inl e, w)
      | Inr c \<Rightarrow> (let (rs, w') = run c fetch calls w in (Inr rs, w')))"

text \<open>
  A \<^verbatim>\<open>fetch\<close> that records every request it is given, as the spy of the test suite
  does (\<^verbatim>\<open>mock.calls\<close>).
\<close>

definition tracing :: "'w fetch \<Rightarrow> ('w \<times> (string \<times> request_init) list) fetch" where
  "tracing fetch url init wl =
     (let (res, w') = fetch url init (fst wl) in (res, (w', snd wl @ [(url, init)])))"

subsection \<open>Fixtures of the test suite\<close>

definition mockResolvedValue :: "response \<Rightarrow> 'w fetch" where
  "mockResolvedValue r url init w = (Fulfilled r, w)"

definition mockRejectedValue :: "exn \<Rightarrow> 'w fetch" where
  "mockRejectedValue e url init w = (Rejected e, w)"

definition BASE_URL :: string where
  "BASE_URL = ''https://api.soroscan.io''"

definition test_client :: "string option \<Rightarrow> client" where
  "test_client key = \<lparr> priv_baseUrl = BASE_URL, priv_apiKey = key, priv_timeoutMs = SafeInteger False 30000 \<rparr>"

subsection \<open>The methods on the object\<close>

text \<open>
  A method of a class can assign the fields of the object it is called on, and a
  later call on the object reads what it left. To say what the methods of
  \<^verbatim>\<open>SoroScanClient\<close> do to the client, each is given once more with the object made
  explicit: it takes the three private fields as they are before the call and
  returns them, with its result, as they are after the call. The source assigns the
  fields in the constructor (lines 65 to 67) and in no method, so each definition
  returns the fields it was given. A sequence of calls hands the object from each
  call to the next.
\<close>

type_synonym 'w object_method = "'w \<Rightarrow> ((exn + jsval) \<times> client) \<times> 'w"

definition request_obj ::
  "client \<Rightarrow> 'w fetch \<Rightarrow> http_method \<Rightarrow> string \<Rightarrow> options \<Rightarrow> 'w object_method" where
  "request_obj self fetch method path opts w =
     (let url = request_url self path opts;
          init = request_init_of self method opts;
          (res, w') = fetch url init w
      in ((on_settled self res, self), w'))"

definition getEvents_obj :: "client \<Rightarrow> 'w fetch \<Rightarrow> (string \<times> param) list \<Rightarrow> 'w object_method" where
  "getEvents_obj self fetch params =
     request_obj self fetch GET ''/v1/events'' \<lparr> query = Some params, body = JUndefined \<rparr>"

definition getContracts_obj :: "client \<Rightarrow> 'w fetch \<Rightarrow> (string \<times> param) list \<Rightarrow> 'w object_method" where
  "getContracts_obj self fetch params =
     request_obj self fetch GET ''/v1/contracts'' \<lparr> query = Some params, body = JUndefined \<rparr>"

definition getContract_obj :: "client \<Rightarrow> 'w fetch \<Rightarrow> string \<Rightarrow> 'w object_method" where
  "getContract_obj self fetch contractId =
     request_obj self fetch GET (''/v1/contracts/'' @ encodeURIComponent contractId) no_options"

definition getTransactions_obj :: "client \<Rightarrow> 'w fetch \<Rightarrow> (string \<times> param) list \<Rightarrow> 'w object_method" where
  "getTransactions_obj self fetch params =
     request_obj self fetch GET ''/v1/transactions'' \<lparr> query = Some params, body = JUndefined \<rparr>"

definition getTransaction_obj :: "client \<Rightarrow> 'w fetch \<Rightarrow> string \<Rightarrow> 'w object_method" where
  "getTransaction_obj self fetch txHash =
     request_obj self fetch GET (''/v1/transactions/'' @ encodeURIComponent txHash) no_options"

definition getLedgers_obj :: "client \<Rightarrow> 'w fetch \<Rightarrow> (string \<times> param) list \<Rightarrow> 'w object_method" where
  "getLedgers_obj self fetch params =
     request_obj self fetch GET ''/v1/ledgers'' \<lparr> query = Some params, body = JUndefined \<rparr>"

definition getLedger_obj :: "client \<Rightarrow> 'w fetch \<Rightarrow> number \<Rightarrow> 'w object_method" where
  "getLedger_obj self fetch sequence =
     request_obj self fetch GET (''/v1/ledgers/'' @ number_to_string sequence) no_options"

definition getAccount_obj :: "client \<Rightarrow> 'w fetch \<Rightarrow> string \<Rightarrow> 'w object_method" where
  "getAccount_obj self fetch accountId =
     request_obj self fetch GET (''/v1/accounts/'' @ encodeURIComponent accountId) no_options"

definition subscribeWebhook_obj :: "client \<Rightarrow> 'w fetch \<Rightarrow> jsval \<Rightarrow> 'w object_method" where
  "subscribeWebhook_obj self fetch params =
     request_obj self fetch POST ''/v1/webhooks'' \<lparr> query = None, body = params \<rparr>"

definition getWebhook_obj :: "client \<Rightarrow> 'w fetch \<Rightarrow> string \<Rightarrow> 'w object_method" where
  "getWebhook_obj self fetch webhookId =
     request_obj self fetch GET (''/v1/webhooks/'' @ encodeURIComponent webhookId) no_options"

definition deleteWebhook_obj :: "client \<Rightarrow> 'w fetch \<Rightarrow> string \<Rightarrow> 'w object_method" where
  "deleteWebhook_obj self fetch webhookId =
     request_obj self fetch DELETE (''/v1/webhooks/'' @ encodeURIComponent webhookId) no_options"

definition listWebhooks_obj :: "client \<Rightarrow> 'w fetch \<Rightarrow> 'w object_method" where
  "listWebhooks_obj self fetch = request_obj self fetch GET ''/v1/webhooks'' no_options"

definition updateWebhook_obj :: "client \<Rightarrow> 'w fetch \<Rightarrow> string \<Rightarrow> jsval \<Rightarrow> 'w object_method" where
  "updateWebhook_obj self fetch webhookId params =
     request_obj self fetch PATCH (''/v1/webhooks/'' @ encodeURIComponent webhookId)
       \<lparr> query = None, body = params \<rparr>"

fun invoke_obj :: "client \<Rightarrow> 'w fetch \<Rightarrow> api_call \<Rightarrow> 'w object_method" where
  "invoke_obj self fetch (GetEvents params) = getEvents_obj self fetch params"
| "invoke_obj self fetch (GetContracts params) = getContracts_obj self fetch params"
| "invoke_obj self fetch (GetContract contractId) = getContract_obj self fetch contractId"
| "invoke_obj self fetch (GetTransactions params) = getTransactions_obj self fetch params"
| "invoke_obj self fetch (GetTransaction txHash) = getTransaction_obj self fetch txHash"
| "invoke_obj self fetch (GetLedgers params) = getLedgers_obj self fetch params"
| "invoke_obj self fetch (GetLedger sequence) = getLedger_obj self fetch sequence"
| "invoke_obj self fetch (GetAccount accountId) = getAccount_obj self fetch accountId"
| "invoke_obj self fetch (SubscribeWebhook params) = subscribeWebhook_obj self fetch params"
| "invoke_obj self fetch ListWebhooks = listWebhooks_obj self fetch"
| "invoke_obj self fetch (GetWebhook webhookId) = getWebhook_obj self fetch webhookId"
| "invoke_obj self fetch (UpdateWebhook webhookId params) = updateWebhook_obj self fetch webhookId params"
| "invoke_obj self fetch (DeleteWebhook webhookId) = deleteWebhook_obj self fetch webhookId"

text \<open>
  Calls made one after the other on the same object: each call finds the fields as
  the call before it left them.
\<close>

fun run_obj ::
  "client \<Rightarrow> 'w fetch \<Rightarrow> api_call list \<Rightarrow> 'w \<Rightarrow> ((exn + jsval) list \<times> client) \<times> 'w" where
  "run_obj self fetch [] w = (([], self), w)"
| "run_obj self fetch (call # calls) w =
     (let ((r, self'), w') = invoke_obj self fetch call w;
          ((rs, self''), w'') = run_obj self' fetch calls w'
      in ((r # rs, self''), w''))"

subsection \<open>The request of a call and the answer to it\<close>

definition request_of :: "client \<Rightarrow> api_call \<Rightarrow> string \<times> request_init" where
  "request_of c call =
     (request_url c (call_path call) (call_options call),
      request_init_of c (call_method call) (call_options call))"

text \<open>What \<^verbatim>\<open>fetch\<close> settles to for a request, in a world.\<close>

definition answer :: "'w fetch \<Rightarrow> string \<times> request_init \<Rightarrow> 'w \<Rightarrow> fetch_result" where
  "answer fetch rq w = fst (fetch (fst rq) (snd rq) w)"

subsection \<open>The declared shape of an error body\<close>




text \<open>
  \<open>prints_as n s\<close>: the string \<open>s\<close> is the text of the number \<open>n\<close>, for a safe
  integer its decimal notation after a minus sign if it is negative and not zero, for
  \<^verbatim>\<open>NaN\<close> and the infinities the name.
\<close>

fun prints_as :: "number \<Rightarrow> string \<Rightarrow> bool" where
  "prints_as (SafeInteger neg m) s =
     (if neg \<and> m \<noteq> 0 then s \<noteq> [] \<and> hd s = CHR ''-'' \<and> decimal_text (tl s) (unat m)
      else decimal_text s (unat m))"
| "prints_as NaN s = (s = ''NaN'')"
| "prints_as (Infinity neg) s = (s = (if neg then ''-Infinity'' else ''Infinity''))"
| "prints_as (OtherNumber t) s = (s = t)"

subsection \<open>Decoding, as the receiver of a URL does it\<close>

text \<open>
  The percent-decoding and the application/x-www-form-urlencoded parser of the URL
  standard. The client does not call them; they say what a server reads in the path
  and the query string that the client sends.
\<close>

definition is_hex_digit :: "char \<Rightarrow> bool" where
  "is_hex_digit c \<longleftrightarrow>
     (let n = (of_char c :: nat) in (48 \<le> n \<and> n \<le> 57) \<or> (65 \<le> n \<and> n \<le> 70) \<or> (97 \<le> n \<and> n \<le> 102))"

definition hex_value :: "char \<Rightarrow> nat" where
  "hex_value c =
     (let n = (of_char c :: nat)
      in if n \<le> 57 then n - 48 else if n \<le> 70 then n - 55 else n - 87)"

text \<open>
  Percent-decoding: \<^verbatim>\<open>%\<close> followed by two hexadecimal digits is the byte they
  denote, every other byte is itself.
\<close>

fun percent_decode :: "string \<Rightarrow> string" where
  "percent_decode (c # h # l # cs) =
     (if c = CHR ''%'' \<and> is_hex_digit h \<and> is_hex_digit l
      then char_of (16 * hex_value h + hex_value l) # percent_decode cs
      else c # percent_decode (h # l # cs))"
| "percent_decode cs = cs"


text \<open>The pieces of a string between the occurrences of a delimiter.\<close>

fun split_on :: "char \<Rightarrow> string \<Rightarrow> string list" where
  "split_on d [] = [[]]"
| "split_on d (c # cs) =
     (if c = d then [] # split_on d cs
      else (case split_on d cs of [] \<Rightarrow> [[c]] | x # xs \<Rightarrow> (c # x) # xs))"


section \<open>Properties\<close>

subsection \<open>The shape of a call\<close>

lemma invoke_request:
  "invoke c fetch call = request c fetch (call_method call) (call_path call) (call_options call)"
  by (cases call)
    (simp_all add: getEvents_def getContracts_def getContract_def getTransactions_def
      getTransaction_def getLedgers_def getLedger_def getAccount_def subscribeWebhook_def
      listWebhooks_def getWebhook_def updateWebhook_def deleteWebhook_def)

lemma invoke_settled:
  "invoke c fetch call w =
     (on_settled c (fst (fetch (request_url c (call_path call) (call_options call))
                          (request_init_of c (call_method call) (call_options call)) w)),
      snd (fetch (request_url c (call_path call) (call_options call))
                 (request_init_of c (call_method call) (call_options call)) w))"
  by (simp add: invoke_request request_def Let_def split_beta)

lemma makeClient_eq:
  "new_SoroScanClient \<lparr> baseUrl = BASE_URL, apiKey = key, timeoutMs = None \<rparr> = Inr (test_client key)"
  by (simp add: new_SoroScanClient_def test_client_def BASE_URL_def strip_trailing_slash_def)

subsection \<open>Construction\<close>

text \<open>
  C8. Constructing a client with the empty base URL fails in the constructor, with the
  error \<^verbatim>\<open>SoroScanClient: baseUrl is required\<close>, whatever the other fields of the
  configuration are. A program that does so and goes on to call methods fails with that
  error before any call: \<^verbatim>\<open>fetch\<close> is given no request and the world is as it was.
\<close>

theorem empty_baseUrl_fails_at_construction:
  "new_SoroScanClient (cfg\<lparr>baseUrl := []\<rparr>) = Inl (Error ''Error'' ''SoroScanClient: baseUrl is required'')
   \<and> session (cfg\<lparr>baseUrl := []\<rparr>) (tracing fetch) calls (w, [])
       = (Inl (Error ''Error'' ''SoroScanClient: baseUrl is required''), (w, []))"
  by (simp add: session_def new_SoroScanClient_def)

theorem empty_baseUrl_fails_at_construction_witness:
  "session \<lparr> baseUrl = [], apiKey = Some ''key'', timeoutMs = None \<rparr>
      (tracing (mockResolvedValue \<lparr> status = 200, statusText = ''OK'', json_body = Some JNull \<rparr>))
      [GetEvents [], DeleteWebhook ''wh_001''] ((), [])
    = (Inl (Error ''Error'' ''SoroScanClient: baseUrl is required''), ((), []))"
  using empty_baseUrl_fails_at_construction
    [of "\<lparr> baseUrl = [], apiKey = Some ''key'', timeoutMs = None \<rparr>"
        "mockResolvedValue \<lparr> status = 200, statusText = ''OK'', json_body = Some JNull \<rparr>"
        "[GetEvents [], DeleteWebhook ''wh_001'']" "()"]
  by simp

subsection \<open>Responses\<close>

lemma answer_tracing [simp]: "answer (tracing fetch) rq wl = answer fetch rq (fst wl)"
  by (simp add: answer_def tracing_def split_beta)

lemma invoke_answer: "fst (invoke c fetch call w) = on_settled c (answer fetch (request_of c call) w)"
  by (simp add: invoke_settled answer_def request_of_def)

lemma invoke_tracing_log:
  "snd (snd (invoke c (tracing fetch) call (w, log))) = log @ [request_of c call]"
  by (simp add: invoke_settled tracing_def request_of_def split_beta)

text \<open>
  C5. Whatever the method, a response with status 204 makes the call resolve with
  \<^verbatim>\<open>undefined\<close>; \<^verbatim>\<open>deleteWebhook\<close> in particular.
\<close>

theorem no_content_resolves_undefined:
  assumes "status r = 204"
  shows "(answer fetch (request_of c call) w = Fulfilled r
            \<longrightarrow> fst (invoke c fetch call w) = Inr JUndefined)
       \<and> (answer fetch (request_of c (DeleteWebhook webhookId)) w = Fulfilled r
            \<longrightarrow> fst (deleteWebhook c fetch webhookId w) = Inr JUndefined)"
proof -
  have "fst (deleteWebhook c fetch webhookId w) = fst (invoke c fetch (DeleteWebhook webhookId) w)"
    by simp
  with assms show ?thesis
    unfolding invoke_answer by (simp add: on_settled_def)
qed

theorem no_content_resolves_undefined_witness:
  "status \<lparr> status = 204, statusText = [], json_body = None \<rparr> = 204
   \<and> answer (mockResolvedValue \<lparr> status = 204, statusText = [], json_body = None \<rparr>)
        (request_of (test_client (Some ''key'')) (DeleteWebhook ''wh_001'')) ()
       = Fulfilled \<lparr> status = 204, statusText = [], json_body = None \<rparr>
   \<and> fst (deleteWebhook (test_client (Some ''key''))
            (mockResolvedValue \<lparr> status = 204, statusText = [], json_body = None \<rparr>) ''wh_001'' ())
       = Inr JUndefined"
  using no_content_resolves_undefined
    [of "\<lparr> status = 204, statusText = [], json_body = None \<rparr>"
        "mockResolvedValue \<lparr> status = 204, statusText = [], json_body = None \<rparr>"
        "test_client (Some ''key'')" "DeleteWebhook ''wh_001''" "()" "''wh_001''"]
  by (simp add: answer_def mockResolvedValue_def)

text \<open>
  C9. A response with a success status other than 204 whose body is not JSON makes the
  call resolve with \<^verbatim>\<open>null\<close>; one request was issued, no second one.
\<close>

theorem unparsable_success_body_resolves_null:
  assumes "answer fetch (request_of c call) w = Fulfilled r"
    and "ok r" and "status r \<noteq> 204" and "json_body r = None"
  shows "fst (invoke c fetch call w) = Inr JNull
       \<and> snd (snd (invoke c (tracing fetch) call (w, []))) = [request_of c call]"
  using assms unfolding invoke_answer invoke_tracing_log by (simp add: on_settled_def)

theorem unparsable_success_body_resolves_null_witness:
  "ok \<lparr> status = 200, statusText = ''OK'', json_body = None \<rparr>
   \<and> fst (invoke (test_client None)
            (mockResolvedValue \<lparr> status = 200, statusText = ''OK'', json_body = None \<rparr>)
            (GetContract ''CCAAA'') ()) = Inr JNull"
  using unparsable_success_body_resolves_null
    [of "mockResolvedValue \<lparr> status = 200, statusText = ''OK'', json_body = None \<rparr>"
        "test_client None" "GetContract ''CCAAA''" "()"
        "\<lparr> status = 200, statusText = ''OK'', json_body = None \<rparr>"]
  by (simp add: answer_def mockResolvedValue_def ok_def)

subsection \<open>Headers and base URL\<close>

lemma constructed_fields:
  assumes "new_SoroScanClient cfg = Inr c"
  shows "baseUrl cfg \<noteq> []" and "priv_baseUrl c = strip_trailing_slash (baseUrl cfg)"
    and "priv_apiKey c = apiKey cfg"
  using assms by (auto simp add: new_SoroScanClient_def split: if_splits)

lemma suffix_single: "suffix [x] s \<longleftrightarrow> s \<noteq> [] \<and> last s = x"
  by (cases s rule: rev_cases) (auto simp add: suffix_def)

lemma strip_trailing_slash_eq:
  "strip_trailing_slash s = (if suffix ''/'' s then butlast s else s)"
  by (simp add: strip_trailing_slash_def suffix_single)

lemma strip_trailing_slash_no_slash:
  assumes "\<not> suffix ''//'' s"
  shows "\<not> suffix ''/'' (strip_trailing_slash s)"
proof (cases s rule: rev_cases)
  case Nil
  then show ?thesis by (simp add: strip_trailing_slash_def)
next
  case (snoc t x)
  show ?thesis
  proof (cases "x = CHR ''/''")
    case True
    with snoc assms have "\<not> suffix ''/'' t"
      by (auto simp add: suffix_def)
    with snoc True show ?thesis by (simp add: strip_trailing_slash_def)
  next
    case False
    with snoc show ?thesis by (simp add: strip_trailing_slash_def suffix_single)
  qed
qed

lemma call_path_slash: "prefix ''/'' (call_path call)"
  by (cases call) simp_all

text \<open>
  C4, amended. Every method issues one request, and its headers are
  \<^verbatim>\<open>Content-Type: application/json\<close> and \<^verbatim>\<open>Accept: application/json\<close>, followed by
  \<^verbatim>\<open>Authorization: Bearer <key>\<close> exactly when the configured \<^verbatim>\<open>apiKey\<close> is a
  non-empty string; there is no other header.
\<close>

theorem headers_of_every_request:
  assumes "new_SoroScanClient cfg = Inr c"
  shows "\<exists>url init.
      snd (snd (invoke c (tracing fetch) call (w, []))) = [(url, init)]
      \<and> init_headers init
          = [(''Content-Type'', ''application/json''), (''Accept'', ''application/json'')]
            @ (case apiKey cfg of
                 None \<Rightarrow> []
               | Some k \<Rightarrow> if k = [] then [] else [(''Authorization'', ''Bearer '' @ k)])
      \<and> map_of (init_headers init) ''Authorization''
          = (case apiKey cfg of
               None \<Rightarrow> None
             | Some k \<Rightarrow> if k = [] then None else Some (''Bearer '' @ k))"
  unfolding invoke_tracing_log
  by (simp add: request_of_def request_init_of_def request_headers_def constructed_fields(3) [OF assms]
      split: option.split)

theorem headers_of_every_request_witness:
  "snd (snd (invoke (test_client (Some ''my-api-key''))
               (tracing (mockResolvedValue \<lparr> status = 200, statusText = [], json_body = Some JNull \<rparr>))
               (GetEvents []) ((), [])))
     = [(''https://api.soroscan.io/v1/events'',
         \<lparr> init_method = GET,
           init_headers = [(''Content-Type'', ''application/json''), (''Accept'', ''application/json''),
                           (''Authorization'', ''Bearer my-api-key'')],
           init_signal = SafeInteger False 30000, init_body = None \<rparr>)]
   \<and> map_of (init_headers (snd (request_of (test_client None) (GetEvents [])))) ''Authorization'' = None"
  using headers_of_every_request
      [OF makeClient_eq, of "Some ''my-api-key''"
        "mockResolvedValue \<lparr> status = 200, statusText = [], json_body = Some JNull \<rparr>" "GetEvents []" "()"]
    headers_of_every_request
      [OF makeClient_eq, of None
        "mockResolvedValue \<lparr> status = 200, statusText = [], json_body = Some JNull \<rparr>" "GetEvents []" "()"]
  by (simp del: invoke.simps
      add: invoke_tracing_log request_of_def request_init_of_def request_headers_def
        request_url_def test_client_def BASE_URL_def toQueryString_def Object_entries_def)

text \<open>
  C4 as stated fails for the credential \<^verbatim>\<open>apiKey: ""\<close>: the guard of line 89 is the
  truthiness of the key, so a client configured with the empty key sends no
  \<^verbatim>\<open>Authorization\<close> header.
\<close>

theorem authorization_counterexample:
  "apiKey \<lparr> baseUrl = BASE_URL, apiKey = Some [], timeoutMs = None \<rparr> \<noteq> None
   \<and> session \<lparr> baseUrl = BASE_URL, apiKey = Some [], timeoutMs = None \<rparr>
        (tracing (mockResolvedValue \<lparr> status = 200, statusText = [], json_body = Some JNull \<rparr>))
        [GetEvents []] ((), [])
     = (Inr [Inr JNull],
        ((), [(''https://api.soroscan.io/v1/events'',
               \<lparr> init_method = GET,
                 init_headers = [(''Content-Type'', ''application/json''), (''Accept'', ''application/json'')],
                 init_signal = SafeInteger False 30000, init_body = None \<rparr>)]))"
  by (simp add: session_def new_SoroScanClient_def strip_trailing_slash_def getEvents_def request_def
      tracing_def mockResolvedValue_def on_settled_def ok_def request_init_of_def request_headers_def
      request_url_def BASE_URL_def toQueryString_def Object_entries_def)

text \<open>
  C7, amended. The constructor removes one slash from the end of the base URL if there
  is one; the URL of every request is the stored base, then the method's path, which
  starts with a slash, then the query string if there is one. The stored base has no
  trailing slash unless the configured base URL ends with two slashes.
\<close>

theorem base_url_one_slash_removed:
  assumes "new_SoroScanClient cfg = Inr c"
  shows "priv_baseUrl c = (if suffix ''/'' (baseUrl cfg) then butlast (baseUrl cfg) else baseUrl cfg)
       \<and> (\<not> suffix ''//'' (baseUrl cfg) \<longrightarrow> \<not> suffix ''/'' (priv_baseUrl c))
       \<and> (\<exists>init. snd (snd (invoke c (tracing fetch) call (w, [])))
             = [(priv_baseUrl c @ call_path call
                   @ (case query (call_options call) of None \<Rightarrow> [] | Some q \<Rightarrow> toQueryString q),
                 init)])
       \<and> prefix ''/'' (call_path call)"
proof -
  have b: "priv_baseUrl c = strip_trailing_slash (baseUrl cfg)"
    using assms by (rule constructed_fields(2))
  have "\<not> suffix ''//'' (baseUrl cfg) \<longrightarrow> \<not> suffix ''/'' (priv_baseUrl c)"
    unfolding b by (simp add: strip_trailing_slash_no_slash)
  moreover have "priv_baseUrl c = (if suffix ''/'' (baseUrl cfg) then butlast (baseUrl cfg) else baseUrl cfg)"
    unfolding b by (rule strip_trailing_slash_eq)
  moreover have "\<exists>init. snd (snd (invoke c (tracing fetch) call (w, [])))
             = [(priv_baseUrl c @ call_path call
                   @ (case query (call_options call) of None \<Rightarrow> [] | Some q \<Rightarrow> toQueryString q),
                 init)]"
    unfolding invoke_tracing_log by (simp add: request_of_def request_url_def)
  ultimately show ?thesis
    using call_path_slash by blast
qed

theorem base_url_one_slash_removed_witness:
  "new_SoroScanClient \<lparr> baseUrl = ''https://api.soroscan.io/'', apiKey = None, timeoutMs = None \<rparr>
     = Inr (test_client None)
   \<and> \<not> suffix ''//'' ''https://api.soroscan.io/''
   \<and> \<not> suffix ''/'' (priv_baseUrl (test_client None))
   \<and> (\<exists>init. snd (snd (invoke (test_client None)
               (tracing (mockResolvedValue \<lparr> status = 200, statusText = [], json_body = Some JNull \<rparr>))
               (GetLedger (SafeInteger False 123456)) ((), [])))
     = [(''https://api.soroscan.io/v1/ledgers/123456'', init)])"
proof -
  have c: "new_SoroScanClient \<lparr> baseUrl = ''https://api.soroscan.io/'', apiKey = None, timeoutMs = None \<rparr>
     = Inr (test_client None)"
    by (simp add: new_SoroScanClient_def test_client_def BASE_URL_def strip_trailing_slash_def)
  have n: "\<not> suffix ''//'' ''https://api.soroscan.io/''"
    by (simp add: suffix_def append_eq_Cons_conv)
  have p: "priv_baseUrl (test_client None) @ call_path (GetLedger (SafeInteger False 123456))
             @ (case query (call_options (GetLedger (SafeInteger False 123456))) of None \<Rightarrow> [] | Some q \<Rightarrow> toQueryString q)
           = ''https://api.soroscan.io/v1/ledgers/123456''"
    by (simp add: test_client_def BASE_URL_def no_options_def
        dec_nat.simps digit_char_def)
  from base_url_one_slash_removed [OF c,
      of "mockResolvedValue \<lparr> status = 200, statusText = [], json_body = Some JNull \<rparr>" "GetLedger (SafeInteger False 123456)" "()"]
    c n
  show ?thesis
    unfolding p by (simp add: suffix_single)
qed

text \<open>
  C7 as stated fails for a base URL that ends with two slashes: the regular expression
  of line 65 matches one slash, the stored base keeps the other, and the URL has a
  double slash before the path.
\<close>

theorem trailing_slash_counterexample:
  "session \<lparr> baseUrl = ''https://api.soroscan.io//'', apiKey = None, timeoutMs = None \<rparr>
        (tracing (mockResolvedValue \<lparr> status = 200, statusText = [], json_body = Some JNull \<rparr>))
        [GetEvents []] ((), [])
     = (Inr [Inr JNull],
        ((), [(''https://api.soroscan.io//v1/events'',
               \<lparr> init_method = GET,
                 init_headers = [(''Content-Type'', ''application/json''), (''Accept'', ''application/json'')],
                 init_signal = SafeInteger False 30000, init_body = None \<rparr>)]))
   \<and> new_SoroScanClient \<lparr> baseUrl = ''https://api.soroscan.io//'', apiKey = None, timeoutMs = None \<rparr>
       = Inr \<lparr> priv_baseUrl = ''https://api.soroscan.io/'', priv_apiKey = None, priv_timeoutMs = SafeInteger False 30000 \<rparr>
   \<and> suffix ''/'' ''https://api.soroscan.io/''"
  by (simp add: session_def new_SoroScanClient_def strip_trailing_slash_def getEvents_def request_def
      tracing_def mockResolvedValue_def on_settled_def ok_def request_init_of_def request_headers_def
      request_url_def toQueryString_def Object_entries_def suffix_single)

subsection \<open>The text of a value\<close>



lemma dec_nat_not_Nil: "dec_nat n \<noteq> []"
  by (subst dec_nat.simps) simp

lemma below_10_cases: "d < 10 \<Longrightarrow> d \<in> {0, 1, 2, 3, 4, 5, 6, 7, 8, 9::nat}"
  by (simp only: insert_iff empty_iff) arith

lemma digit_char_code: "d < 10 \<Longrightarrow> (of_char (digit_char d) :: nat) = 48 + d"
  using below_10_cases [of d] by (auto simp add: digit_char_def)

lemma digit_char_digit: "d < 10 \<Longrightarrow> is_digit (digit_char d)"
  using below_10_cases [of d] by (auto simp add: digit_char_def is_digit_def)

lemma digit_char_zero: "d < 10 \<Longrightarrow> digit_char d = CHR ''0'' \<longleftrightarrow> d = 0"
  using below_10_cases [of d] by (auto simp add: digit_char_def)

lemma dec_nat_digits: "list_all is_digit (dec_nat n)"
proof (induction n rule: dec_nat.induct)
  case (1 n)
  show ?case
  proof (cases "n < 10")
    case True
    then show ?thesis
      using digit_char_digit [of n] by (simp add: dec_nat.simps [of n])
  next
    case False
    have "n mod 10 < 10" by simp
    from digit_char_digit [OF this] False "1.IH" show ?thesis
      by (simp add: dec_nat.simps [of n])
  qed
qed

lemma decimal_value_dec_nat: "decimal_value (dec_nat n) = n"
proof (induction n rule: dec_nat.induct)
  case (1 n)
  show ?case
  proof (cases "n < 10")
    case True
    then show ?thesis
      by (simp add: dec_nat.simps [of n] decimal_value_def digit_char_code)
  next
    case False
    have "n mod 10 < 10" by simp
    from digit_char_code [OF this] False "1.IH" show ?thesis
      by (simp add: dec_nat.simps [of n] decimal_value_def)
  qed
qed

lemma hd_dec_nat: "hd (dec_nat n) = CHR ''0'' \<Longrightarrow> n = 0"
proof (induction n rule: dec_nat.induct)
  case (1 n)
  show ?case
  proof (cases "n < 10")
    case True
    with "1.prems" show ?thesis
      by (simp add: dec_nat.simps [of n] digit_char_zero)
  next
    case False
    with "1.prems" have "hd (dec_nat (n div 10)) = CHR ''0''"
      by (simp add: dec_nat.simps [of n] dec_nat_not_Nil)
    with False "1.IH" have "n div 10 = 0" by simp
    with False show ?thesis by simp
  qed
qed

lemma decimal_text_dec_nat: "decimal_text (dec_nat n) n"
proof -
  have "hd (dec_nat n) \<noteq> CHR ''0'' \<or> dec_nat n = ''0''"
  proof (cases "hd (dec_nat n) = CHR ''0''")
    case True
    then have "n = 0" by (rule hd_dec_nat)
    then show ?thesis by (simp add: dec_nat.simps digit_char_def)
  next
    case False
    then show ?thesis by simp
  qed
  then show ?thesis
    by (simp add: decimal_text_def dec_nat_not_Nil dec_nat_digits decimal_value_dec_nat)
qed

lemma prints_as_number_to_string: "prints_as n (number_to_string n)"
  by (cases n) (simp_all add: decimal_text_dec_nat)

subsection \<open>Failure statuses\<close>




subsection \<open>Timeout and transport failures\<close>

lemma constructed_timeout:
  "new_SoroScanClient cfg = Inr c \<Longrightarrow>
     priv_timeoutMs c = (case timeoutMs cfg of None \<Rightarrow> SafeInteger False 30000 | Some t \<Rightarrow> t)"
  by (auto simp add: new_SoroScanClient_def split: if_splits)

text \<open>
  C3. \<^verbatim>\<open>fetch\<close> reports the abort of its signal by rejecting with the
  \<^verbatim>\<open>DOMException\<close> named \<^verbatim>\<open>AbortError\<close>, and the signal of a request is aborted by
  nothing but the timer that \<^verbatim>\<open>#request\<close> arms with the configured duration (the
  delay of the timer of every request is the configured duration, 30000 by default).
  Then the call fails with the error \<^verbatim>\<open>SoroScanClient: request timed out after <n>ms\<close>,
  where \<^verbatim>\<open><n>\<close> is the text of the configured duration: its decimal notation if it
  is a safe integer, what \<^verbatim>\<open>String\<close> prints for it otherwise. Every other rejection
  of \<^verbatim>\<open>fetch\<close> is the rejection of the call, unchanged; a network failure (a
  \<^verbatim>\<open>TypeError\<close>, by the Fetch standard) is therefore never the timeout error.
\<close>

theorem timeout_error_and_transport_failures:
  assumes "new_SoroScanClient cfg = Inr c"
  shows "(answer fetch (request_of c call) w = Rejected (Error ''AbortError'' m) \<longrightarrow>
            (\<exists>text. fst (invoke c fetch call w)
                 = Inl (Error ''Error'' (''SoroScanClient: request timed out after '' @ text @ ''ms''))
               \<and> prints_as (case timeoutMs cfg of None \<Rightarrow> SafeInteger False 30000 | Some t \<Rightarrow> t) text
               \<and> sublist (text @ ''ms'') (''SoroScanClient: request timed out after '' @ text @ ''ms'')))
       \<and> init_signal (snd (request_of c call))
           = (case timeoutMs cfg of None \<Rightarrow> SafeInteger False 30000 | Some t \<Rightarrow> t)
       \<and> (answer fetch (request_of c call) w = Rejected e \<and> \<not> is_AbortError e \<longrightarrow>
            fst (invoke c fetch call w) = Inl e)
       \<and> (answer fetch (request_of c call) w = Rejected (Error ''TypeError'' m) \<longrightarrow>
            fst (invoke c fetch call w) = Inl (Error ''TypeError'' m)
            \<and> fst (invoke c fetch call w) \<noteq> Inl (timeout_error c))"
proof -
  let ?t = "case timeoutMs cfg of None \<Rightarrow> SafeInteger False 30000 | Some t \<Rightarrow> t"
  have t: "priv_timeoutMs c = ?t"
    using assms by (rule constructed_timeout)
  have timed_out: "\<exists>text. fst (invoke c fetch call w)
                 = Inl (Error ''Error'' (''SoroScanClient: request timed out after '' @ text @ ''ms''))
               \<and> prints_as ?t text
               \<and> sublist (text @ ''ms'') (''SoroScanClient: request timed out after '' @ text @ ''ms'')"
    if "answer fetch (request_of c call) w = Rejected (Error ''AbortError'' m)"
  proof (intro exI conjI)
    show "fst (invoke c fetch call w)
        = Inl (Error ''Error'' (''SoroScanClient: request timed out after '' @ number_to_string ?t @ ''ms''))"
      unfolding invoke_answer that by (simp add: on_settled_def timeout_error_def t)
    show "prints_as ?t (number_to_string ?t)"
      by (rule prints_as_number_to_string)
    show "sublist (number_to_string ?t @ ''ms'')
        (''SoroScanClient: request timed out after '' @ number_to_string ?t @ ''ms'')"
      by (rule sublist_append_leftI)
  qed
  have signal: "init_signal (snd (request_of c call)) = ?t"
    by (simp add: request_of_def request_init_of_def t)
  have other: "fst (invoke c fetch call w) = Inl e"
    if "answer fetch (request_of c call) w = Rejected e \<and> \<not> is_AbortError e"
    unfolding invoke_answer using that by (simp add: on_settled_def)
  have network: "fst (invoke c fetch call w) = Inl (Error ''TypeError'' m)
            \<and> fst (invoke c fetch call w) \<noteq> Inl (timeout_error c)"
    if "answer fetch (request_of c call) w = Rejected (Error ''TypeError'' m)"
    unfolding invoke_answer using that by (simp add: on_settled_def timeout_error_def)
  from timed_out signal other network show ?thesis by blast
qed

theorem timeout_error_and_transport_failures_witness:
  "fst (invoke (test_client None) (mockRejectedValue (Error ''AbortError'' ''This operation was aborted''))
          (GetEvents []) ())
     = Inl (Error ''Error'' ''SoroScanClient: request timed out after 30000ms'')
   \<and> prints_as (SafeInteger False 30000) ''30000''
   \<and> new_SoroScanClient \<lparr> baseUrl = BASE_URL, apiKey = None, timeoutMs = Some (SafeInteger False 5000) \<rparr>
       = Inr \<lparr> priv_baseUrl = BASE_URL, priv_apiKey = None, priv_timeoutMs = SafeInteger False 5000 \<rparr>
   \<and> fst (invoke \<lparr> priv_baseUrl = BASE_URL, priv_apiKey = None, priv_timeoutMs = SafeInteger False 5000 \<rparr>
          (mockRejectedValue (Error ''AbortError'' ''This operation was aborted'')) (GetEvents []) ())
     = Inl (Error ''Error'' ''SoroScanClient: request timed out after 5000ms'')
   \<and> \<not> is_AbortError (Error ''TypeError'' ''Failed to fetch'')
   \<and> fst (invoke (test_client None) (mockRejectedValue (Error ''TypeError'' ''Failed to fetch''))
          (GetEvents []) ())
     = Inl (Error ''TypeError'' ''Failed to fetch'')"
  using timeout_error_and_transport_failures
      [OF makeClient_eq, of "mockRejectedValue (Error ''AbortError'' ''This operation was aborted'')"
        None "GetEvents []" "()" "''This operation was aborted''" "Error ''AbortError'' ''This operation was aborted''"]
    timeout_error_and_transport_failures
      [OF makeClient_eq, of "mockRejectedValue (Error ''TypeError'' ''Failed to fetch'')"
        None "GetEvents []" "()" "''Failed to fetch''" "Error ''TypeError'' ''Failed to fetch''"]
  by (simp del: invoke.simps
      add: invoke_answer answer_def mockRejectedValue_def on_settled_def timeout_error_def
        test_client_def new_SoroScanClient_def BASE_URL_def strip_trailing_slash_def
        dec_nat.simps digit_char_def decimal_text_def is_digit_def decimal_value_def)

subsection \<open>Percent-encoding and the order of the entries\<close>

lemma below_16_cases:
  "d < 16 \<Longrightarrow> d \<in> {0, 1, 2, 3, 4, 5, 6, 7, 8, 9, 10, 11, 12, 13, 14, 15::nat}"
  by (simp only: insert_iff empty_iff) arith

lemma hex_digit_code:
  assumes "d < 16"
  shows "(of_char (hex_digit d) :: nat) = (if d < 10 then 48 + d else 55 + d)"
  using below_16_cases [OF assms] by (auto simp add: hex_digit_def)

lemma hex_value_hex_digit: "d < 16 \<Longrightarrow> hex_value (hex_digit d) = d"
  by (simp add: hex_value_def hex_digit_code)

lemma is_hex_digit_hex_digit: "d < 16 \<Longrightarrow> is_hex_digit (hex_digit d)"
  by (simp add: is_hex_digit_def hex_digit_code)

lemma is_alnum_hex_digit: "d < 16 \<Longrightarrow> is_alnum (hex_digit d)"
  by (simp add: is_alnum_def hex_digit_code)

lemma byte_halves: "(of_char c :: nat) div 16 < 16" "(of_char c :: nat) mod 16 < 16"
proof -
  have "(of_char c :: nat) < 256" by simp
  then show "(of_char c :: nat) div 16 < 16" by arith
  show "(of_char c :: nat) mod 16 < 16" by simp
qed

lemma char_of_halves: "char_of (16 * ((of_char c :: nat) div 16) + of_char c mod 16) = c"
  by simp

lemma percent_decode_plain:
  "percent_decode (c # cs) = c # percent_decode cs" if "c \<noteq> CHR ''%''"
proof (cases cs)
  case Nil
  then show ?thesis by simp
next
  case (Cons h t)
  with that show ?thesis by (cases t) simp_all
qed

lemma percent_decode_escape:
  "percent_decode (percent_byte c @ cs) = c # percent_decode cs"
  by (simp add: percent_byte_def is_hex_digit_hex_digit hex_value_hex_digit byte_halves)

lemma not_percent_unreserved: "uri_unreserved c \<Longrightarrow> c \<noteq> CHR ''%''"
  by (auto simp add: uri_unreserved_def is_alnum_def)

lemma percent_decode_encodeURIComponent: "percent_decode (encodeURIComponent s) = s"
  by (induction s)
    (simp_all add: encodeURIComponent_def percent_decode_plain percent_decode_escape not_percent_unreserved)

lemma uri_unreserved_hex_digit: "d < 16 \<Longrightarrow> uri_unreserved (hex_digit d)"
  by (simp add: uri_unreserved_def is_alnum_hex_digit)

lemma encodeURIComponent_chars:
  "ch \<in> set (encodeURIComponent s) \<Longrightarrow> uri_unreserved ch \<or> ch = CHR ''%''"
  by (induction s)
    (auto simp add: encodeURIComponent_def percent_byte_def uri_unreserved_hex_digit byte_halves
      split: if_splits)

lemma encodeURIComponent_no_delimiter:
  "CHR ''/'' \<notin> set (encodeURIComponent s)" "CHR ''?'' \<notin> set (encodeURIComponent s)"
  "CHR ''#'' \<notin> set (encodeURIComponent s)"
  using encodeURIComponent_chars [of _ s]
  by (fastforce simp add: uri_unreserved_def is_alnum_def)+






lemma split_on_not_Nil: "split_on d s \<noteq> []"
  by (induction s) (auto split: list.splits)








subsection \<open>Query strings\<close>







lemma traced_request:
  "snd (snd (request c (tracing fetch) method path opts (w, log)))
     = log @ [(request_url c path opts, request_init_of c method opts)]"
  by (simp add: request_def tracing_def split_beta Let_def)




subsection \<open>Identifiers in paths\<close>

text \<open>
  C6, amended. Each of the six methods that take a string identifier (\<^verbatim>\<open>getContract\<close>,
  \<^verbatim>\<open>getTransaction\<close>, \<^verbatim>\<open>getAccount\<close>, \<^verbatim>\<open>getWebhook\<close>, \<^verbatim>\<open>updateWebhook\<close>,
  \<^verbatim>\<open>deleteWebhook\<close>) hands to \<^verbatim>\<open>fetch\<close> one request, whose URL is the base, the
  prefix of the resource and \<^verbatim>\<open>encodeURIComponent\<close> of the identifier, a string of
  well-formed text. The encoded identifier consists of unreserved characters and
  \<^verbatim>\<open>%\<close> escapes, holds no \<^verbatim>\<open>/\<close>, \<^verbatim>\<open>?\<close> or \<^verbatim>\<open>#\<close>, and decodes to the identifier.
  \<^verbatim>\<open>getLedger\<close> requests the base, \<^verbatim>\<open>/v1/ledgers/\<close> and the text of the sequence
  number, not encoded: for a safe integer its decimal notation, after a minus sign if
  it is negative and not zero; for any other number what \<^verbatim>\<open>String\<close> prints for it.
\<close>

theorem identifiers_percent_encoded_in_paths:
  "(\<exists>init. snd (snd (getContract c (tracing fetch) ident (w, [])))
       = [(priv_baseUrl c @ ''/v1/contracts/'' @ encodeURIComponent ident, init)])
   \<and> (\<exists>init. snd (snd (getTransaction c (tracing fetch) ident (w, [])))
       = [(priv_baseUrl c @ ''/v1/transactions/'' @ encodeURIComponent ident, init)])
   \<and> (\<exists>init. snd (snd (getAccount c (tracing fetch) ident (w, [])))
       = [(priv_baseUrl c @ ''/v1/accounts/'' @ encodeURIComponent ident, init)])
   \<and> (\<exists>init. snd (snd (getWebhook c (tracing fetch) ident (w, [])))
       = [(priv_baseUrl c @ ''/v1/webhooks/'' @ encodeURIComponent ident, init)])
   \<and> (\<exists>init. snd (snd (updateWebhook c (tracing fetch) ident params (w, [])))
       = [(priv_baseUrl c @ ''/v1/webhooks/'' @ encodeURIComponent ident, init)])
   \<and> (\<exists>init. snd (snd (deleteWebhook c (tracing fetch) ident (w, [])))
       = [(priv_baseUrl c @ ''/v1/webhooks/'' @ encodeURIComponent ident, init)])
   \<and> percent_decode (encodeURIComponent ident) = ident
   \<and> (\<forall>ch \<in> set (encodeURIComponent ident). uri_unreserved ch \<or> ch = CHR ''%'')
   \<and> CHR ''/'' \<notin> set (encodeURIComponent ident)
   \<and> CHR ''?'' \<notin> set (encodeURIComponent ident)
   \<and> CHR ''#'' \<notin> set (encodeURIComponent ident)
   \<and> (\<exists>init text. snd (snd (getLedger c (tracing fetch) sequence (w, [])))
          = [(priv_baseUrl c @ ''/v1/ledgers/'' @ text, init)]
        \<and> prints_as sequence text)"
proof -
  have paths:
    "\<exists>init. snd (snd (getContract c (tracing fetch) ident (w, [])))
       = [(priv_baseUrl c @ ''/v1/contracts/'' @ encodeURIComponent ident, init)]"
    "\<exists>init. snd (snd (getTransaction c (tracing fetch) ident (w, [])))
       = [(priv_baseUrl c @ ''/v1/transactions/'' @ encodeURIComponent ident, init)]"
    "\<exists>init. snd (snd (getAccount c (tracing fetch) ident (w, [])))
       = [(priv_baseUrl c @ ''/v1/accounts/'' @ encodeURIComponent ident, init)]"
    "\<exists>init. snd (snd (getWebhook c (tracing fetch) ident (w, [])))
       = [(priv_baseUrl c @ ''/v1/webhooks/'' @ encodeURIComponent ident, init)]"
    "\<exists>init. snd (snd (updateWebhook c (tracing fetch) ident params (w, [])))
       = [(priv_baseUrl c @ ''/v1/webhooks/'' @ encodeURIComponent ident, init)]"
    "\<exists>init. snd (snd (deleteWebhook c (tracing fetch) ident (w, [])))
       = [(priv_baseUrl c @ ''/v1/webhooks/'' @ encodeURIComponent ident, init)]"
    by (simp_all add: getContract_def getTransaction_def getAccount_def getWebhook_def
        updateWebhook_def deleteWebhook_def traced_request request_url_def no_options_def)
  have chars: "\<forall>ch \<in> set (encodeURIComponent ident). uri_unreserved ch \<or> ch = CHR ''%''"
    using encodeURIComponent_chars by blast
  have "snd (snd (getLedger c (tracing fetch) sequence (w, [])))
          = [(priv_baseUrl c @ ''/v1/ledgers/'' @ number_to_string sequence,
              request_init_of c GET no_options)]"
    by (simp add: getLedger_def traced_request request_url_def no_options_def)
  then have ledger: "\<exists>init text. snd (snd (getLedger c (tracing fetch) sequence (w, [])))
          = [(priv_baseUrl c @ ''/v1/ledgers/'' @ text, init)]
        \<and> prints_as sequence text"
    using prints_as_number_to_string [of sequence] by blast
  from paths chars ledger show ?thesis
    using percent_decode_encodeURIComponent [of ident] encodeURIComponent_no_delimiter [of ident]
    by blast
qed

theorem identifiers_percent_encoded_in_paths_witness:
  "(\<exists>init. snd (snd (getContract (test_client None)
        (tracing (mockResolvedValue \<lparr> status = 200, statusText = [], json_body = Some JNull \<rparr>))
        ''a/b c'' ((), [])))
       = [(''https://api.soroscan.io/v1/contracts/a%2Fb%20c'', init)])
   \<and> percent_decode ''a%2Fb%20c'' = ''a/b c''
   \<and> (\<exists>init text. snd (snd (getLedger (test_client None)
        (tracing (mockResolvedValue \<lparr> status = 200, statusText = [], json_body = Some JNull \<rparr>))
        (SafeInteger False 123456) ((), [])))
       = [(''https://api.soroscan.io/v1/ledgers/'' @ text, init)]
      \<and> prints_as (SafeInteger False 123456) text)
   \<and> prints_as (SafeInteger False 123456) ''123456''"
proof -
  let ?c = "test_client None"
  let ?f = "mockResolvedValue \<lparr> status = 200, statusText = [], json_body = Some JNull \<rparr>"
  note t = identifiers_percent_encoded_in_paths
    [of ?c ?f "''a/b c''" "()" JNull "SafeInteger False 123456"]
  have e: "encodeURIComponent ''a/b c'' = ''a%2Fb%20c''"
    by (simp add: encodeURIComponent_def uri_unreserved_def is_alnum_def percent_byte_def hex_digit_def)
  have b: "priv_baseUrl ?c = ''https://api.soroscan.io''"
    by (simp add: test_client_def BASE_URL_def)
  from t have "\<exists>init. snd (snd (getContract ?c (tracing ?f) ''a/b c'' ((), [])))
       = [(priv_baseUrl ?c @ ''/v1/contracts/'' @ encodeURIComponent ''a/b c'', init)]"
    by (rule conjunct1)
  then have contract: "\<exists>init. snd (snd (getContract ?c (tracing ?f) ''a/b c'' ((), [])))
       = [(''https://api.soroscan.io/v1/contracts/a%2Fb%20c'', init)]"
    unfolding e b by simp
  from t [THEN conjunct2, THEN conjunct2, THEN conjunct2, THEN conjunct2, THEN conjunct2,
      THEN conjunct2, THEN conjunct1]
  have "percent_decode (encodeURIComponent ''a/b c'') = ''a/b c''" .
  then have decoded: "percent_decode ''a%2Fb%20c'' = ''a/b c''"
    unfolding e .
  from t [THEN conjunct2, THEN conjunct2, THEN conjunct2, THEN conjunct2, THEN conjunct2,
      THEN conjunct2, THEN conjunct2, THEN conjunct2, THEN conjunct2, THEN conjunct2, THEN conjunct2]
  have "\<exists>init text. snd (snd (getLedger ?c (tracing ?f) (SafeInteger False 123456) ((), [])))
          = [(priv_baseUrl ?c @ ''/v1/ledgers/'' @ text, init)]
        \<and> prints_as (SafeInteger False 123456) text" .
  then have ledger: "\<exists>init text. snd (snd (getLedger ?c (tracing ?f) (SafeInteger False 123456) ((), [])))
          = [(''https://api.soroscan.io/v1/ledgers/'' @ text, init)]
        \<and> prints_as (SafeInteger False 123456) text"
    unfolding b by simp
  have printed: "prints_as (SafeInteger False 123456) ''123456''"
    by (simp add: decimal_text_def is_digit_def decimal_value_def)
  from contract decoded ledger printed show ?thesis
    by (intro conjI)
qed

text \<open>
  C6 as stated fails for the ledger sequence: the number \<^verbatim>\<open>1e21\<close> is printed as
  \<^verbatim>\<open>1e+21\<close> and \<^verbatim>\<open>getLedger\<close> requests \<^verbatim>\<open>/v1/ledgers/1e+21\<close>; the number
  \<^verbatim>\<open>NaN\<close> gives \<^verbatim>\<open>/v1/ledgers/NaN\<close>. Neither is decimal text.
\<close>

theorem ledger_sequence_counterexample:
  "snd (snd (getLedger (test_client None)
        (tracing (mockResolvedValue \<lparr> status = 200, statusText = [], json_body = Some JNull \<rparr>))
        (OtherNumber ''1e+21'') ((), [])))
     = [(''https://api.soroscan.io/v1/ledgers/1e+21'',
         \<lparr> init_method = GET,
           init_headers = [(''Content-Type'', ''application/json''), (''Accept'', ''application/json'')],
           init_signal = SafeInteger False 30000, init_body = None \<rparr>)]
   \<and> \<not> list_all is_digit ''1e+21''
   \<and> snd (snd (getLedger (test_client None)
        (tracing (mockResolvedValue \<lparr> status = 200, statusText = [], json_body = Some JNull \<rparr>))
        NaN ((), [])))
     = [(''https://api.soroscan.io/v1/ledgers/NaN'',
         \<lparr> init_method = GET,
           init_headers = [(''Content-Type'', ''application/json''), (''Accept'', ''application/json'')],
           init_signal = SafeInteger False 30000, init_body = None \<rparr>)]
   \<and> \<not> list_all is_digit ''NaN''"
  by (simp add: getLedger_def request_def tracing_def mockResolvedValue_def request_url_def
      request_init_of_def request_headers_def test_client_def BASE_URL_def no_options_def
      is_digit_def)

subsection \<open>The client across calls\<close>

lemma request_obj_result:
  "request_obj self fetch method path opts w =
     ((on_settled self (answer fetch (request_url self path opts, request_init_of self method opts) w),
       self),
      snd (fetch (request_url self path opts) (request_init_of self method opts) w))"
  by (simp add: request_obj_def answer_def Let_def split_beta)

lemma invoke_obj_request:
  "invoke_obj self fetch call =
     request_obj self fetch (call_method call) (call_path call) (call_options call)"
  by (cases call)
    (simp_all add: getEvents_obj_def getContracts_obj_def getContract_obj_def
      getTransactions_obj_def getTransaction_obj_def getLedgers_obj_def getLedger_obj_def
      getAccount_obj_def subscribeWebhook_obj_def listWebhooks_obj_def getWebhook_obj_def
      updateWebhook_obj_def deleteWebhook_obj_def)

lemma invoke_obj_result:
  "fst (invoke_obj self fetch call w)
     = (on_settled self (answer fetch (request_of self call) w), self)"
  by (simp add: invoke_obj_request request_obj_result request_of_def)

lemma invoke_obj_world:
  "snd (invoke_obj self fetch call w)
     = snd (fetch (fst (request_of self call)) (snd (request_of self call)) w)"
  by (simp add: invoke_obj_request request_obj_result request_of_def)

lemma invoke_obj_invoke:
  "invoke_obj self fetch call w
     = ((fst (invoke self fetch call w), self), snd (invoke self fetch call w))"
  by (simp add: prod_eq_iff invoke_obj_result invoke_obj_world invoke_settled
      request_of_def answer_def del: invoke.simps invoke_obj.simps)

lemma run_obj_Cons:
  "run_obj self fetch (call # calls) w =
     ((fst (fst (invoke_obj self fetch call w))
         # fst (fst (run_obj (snd (fst (invoke_obj self fetch call w))) fetch calls
                      (snd (invoke_obj self fetch call w)))),
       snd (fst (run_obj (snd (fst (invoke_obj self fetch call w))) fetch calls
                   (snd (invoke_obj self fetch call w))))),
      snd (run_obj (snd (fst (invoke_obj self fetch call w))) fetch calls
             (snd (invoke_obj self fetch call w))))"
  by (simp del: invoke_obj.simps add: split_beta Let_def)

lemma run_obj_step:
  "run_obj self fetch (call # calls) w =
     ((on_settled self (answer fetch (request_of self call) w)
         # fst (fst (run_obj self fetch calls (snd (invoke_obj self fetch call w)))),
       snd (fst (run_obj self fetch calls (snd (invoke_obj self fetch call w))))),
      snd (run_obj self fetch calls (snd (invoke_obj self fetch call w))))"
  unfolding run_obj_Cons by (simp add: invoke_obj_result del: invoke_obj.simps)

lemma run_obj_object: "snd (fst (run_obj self fetch calls w)) = self"
  by (induction calls arbitrary: w)
    (simp_all del: invoke_obj.simps run_obj.simps(2) add: run_obj_step)

lemma run_obj_length: "length (fst (fst (run_obj self fetch calls w))) = length calls"
  by (induction calls arbitrary: w)
    (simp_all del: invoke_obj.simps run_obj.simps(2) add: run_obj_step)

lemma invoke_obj_tracing_world:
  "snd (snd (invoke_obj self (tracing fetch) call (w, log))) = log @ [request_of self call]"
  by (simp add: invoke_obj_world tracing_def split_beta)

lemma run_obj_tracing_log:
  "snd (snd (run_obj self (tracing fetch) calls (w, log))) = log @ map (request_of self) calls"
proof (induction calls arbitrary: w log)
  case Nil
  show ?case by simp
next
  case (Cons call calls)
  obtain w' where w':
    "snd (invoke_obj self (tracing fetch) call (w, log)) = (w', log @ [request_of self call])"
    using invoke_obj_tracing_world [of self fetch call w log] by (metis prod.collapse)
  show ?case
    unfolding run_obj_step w' by (simp add: Cons.IH)
qed

lemma run_obj_nth:
  "i < length calls \<Longrightarrow>
     fst (fst (run_obj self fetch calls w)) ! i
       = on_settled self (answer fetch (request_of self (calls ! i))
                            (snd (run_obj self fetch (take i calls) w)))"
proof (induction calls arbitrary: w i)
  case Nil
  then show ?case by simp
next
  case (Cons call calls)
  show ?case
  proof (cases i)
    case 0
    then show ?thesis
      by (simp only: run_obj_step fst_conv nth_Cons_0 take_0 run_obj.simps(1) snd_conv)
  next
    case (Suc j)
    with Cons.prems have "j < length calls" by simp
    from Cons.IH [OF this] Suc show ?thesis
      by (simp only: run_obj_step fst_conv snd_conv nth_Cons_Suc take_Suc_Cons)
  qed
qed

lemma on_settled_timeout_only:
  "priv_timeoutMs c' = priv_timeoutMs c \<Longrightarrow> on_settled c' res = on_settled c res"
  by (simp add: on_settled_def timeout_error_def split: fetch_result.splits)

text \<open>
  C10. Stated on the methods with the object made explicit. A call returns the object
  with the three fields it was given: no method writes a field. Its result is
  \<open>on_settled\<close> of the object and of the answer that \<^verbatim>\<open>fetch\<close> gives to the one
  request of the call, and the request is made of the object and the arguments;
  \<open>on_settled\<close> reads of the object the timeout only. Hence two calls on the same
  client with the same arguments that get equal answers have equal results, whatever
  the two environments are. After a sequence of calls the object is as it was before.
  The requests of the sequence are those of the calls taken alone, whatever the
  answers were, and each result is made of the client as constructed and of the
  answer to that call: the earlier calls reach it through the world (the server),
  not through the client.
\<close>

theorem calls_deterministic_and_stateless:
  "snd (fst (invoke_obj c fetch call w)) = c
   \<and> fst (fst (invoke_obj c fetch call w)) = on_settled c (answer fetch (request_of c call) w)
   \<and> (priv_timeoutMs c' = priv_timeoutMs c \<longrightarrow> on_settled c' res = on_settled c res)
   \<and> (answer fetch1 (request_of c call) w1 = answer fetch2 (request_of c call) w2
         \<longrightarrow> fst (fst (invoke_obj c fetch1 call w1)) = fst (fst (invoke_obj c fetch2 call w2)))
   \<and> snd (fst (run_obj c fetch calls w)) = c
   \<and> snd (snd (run_obj c (tracing fetch) calls (w, []))) = map (request_of c) calls
   \<and> length (fst (fst (run_obj c fetch calls w))) = length calls
   \<and> (\<forall>i < length calls.
         fst (fst (run_obj c fetch calls w)) ! i
           = on_settled c (answer fetch (request_of c (calls ! i))
                             (snd (run_obj c fetch (take i calls) w))))"
  using on_settled_timeout_only [of c' c res]
  by (simp add: invoke_obj_result run_obj_object run_obj_tracing_log run_obj_length run_obj_nth
      del: invoke_obj.simps)

theorem calls_deterministic_and_stateless_witness:
  "invoke_obj (test_client (Some ''key''))
      (mockResolvedValue \<lparr> status = 404, statusText = ''Not Found'', json_body = None \<rparr>)
      (DeleteWebhook ''wh_001'') ()
     = ((Inl (SoroScanError 404 (JStr ''UNKNOWN_ERROR'') ''HTTP 404 Not Found'' JUndefined),
         test_client (Some ''key'')), ())
   \<and> priv_timeoutMs (test_client None) = priv_timeoutMs (test_client (Some ''key''))
   \<and> on_settled (test_client None) (Rejected (Error ''AbortError'' []))
       = on_settled (test_client (Some ''key'')) (Rejected (Error ''AbortError'' []))
   \<and> fst (fst (invoke_obj (test_client (Some ''key''))
          (mockResolvedValue \<lparr> status = 204, statusText = [], json_body = None \<rparr>)
          (DeleteWebhook ''wh_001'') ()))
     = fst (fst (invoke_obj (test_client (Some ''key''))
          (tracing (mockResolvedValue \<lparr> status = 204, statusText = [], json_body = None \<rparr>))
          (DeleteWebhook ''wh_001'') ((), [])))
   \<and> snd (fst (run_obj (test_client (Some ''key''))
          (mockResolvedValue \<lparr> status = 404, statusText = ''Not Found'', json_body = None \<rparr>)
          [DeleteWebhook ''wh_001'', DeleteWebhook ''wh_001''] ())) = test_client (Some ''key'')
   \<and> length (fst (fst (run_obj (test_client (Some ''key''))
          (mockResolvedValue \<lparr> status = 404, statusText = ''Not Found'', json_body = None \<rparr>)
          [DeleteWebhook ''wh_001'', DeleteWebhook ''wh_001''] ()))) = 2
   \<and> fst (fst (run_obj (test_client (Some ''key''))
          (mockResolvedValue \<lparr> status = 404, statusText = ''Not Found'', json_body = None \<rparr>)
          [DeleteWebhook ''wh_001'', DeleteWebhook ''wh_001''] ())) ! 1
     = Inl (SoroScanError 404 (JStr ''UNKNOWN_ERROR'') ''HTTP 404 Not Found'' JUndefined)"
proof -
  let ?c = "test_client (Some ''key'')"
  let ?f = "mockResolvedValue \<lparr> status = 204, statusText = [], json_body = None \<rparr>"
  let ?g = "mockResolvedValue \<lparr> status = 404, statusText = ''Not Found'', json_body = None \<rparr>"
  let ?calls = "[DeleteWebhook ''wh_001'', DeleteWebhook ''wh_001'']"
  let ?e = "Inl (SoroScanError 404 (JStr ''UNKNOWN_ERROR'') ''HTTP 404 Not Found'' JUndefined)"
  note t = calls_deterministic_and_stateless
    [of ?c ?g "DeleteWebhook ''wh_001''" "()" "test_client None" "Rejected (Error ''AbortError'' [])"
        ?f "()" "tracing ?f" "((), [])" ?calls]
  have settled: "on_settled ?c (answer ?g rq u) = ?e" for rq u
    by (simp add: answer_def mockResolvedValue_def on_settled_def ok_def new_SoroScanError_def
        fallback_apiError_def dec_nat.simps digit_char_def)
  have same: "answer ?f (request_of ?c (DeleteWebhook ''wh_001'')) ()
      = answer (tracing ?f) (request_of ?c (DeleteWebhook ''wh_001'')) ((), [])"
    by simp
  have tm: "priv_timeoutMs (test_client None) = priv_timeoutMs ?c"
    by (simp add: test_client_def)
  from t have obj: "snd (fst (invoke_obj ?c ?g (DeleteWebhook ''wh_001'') ())) = ?c"
    by (rule conjunct1)
  from t [THEN conjunct2, THEN conjunct1]
  have "fst (fst (invoke_obj ?c ?g (DeleteWebhook ''wh_001'') ()))
      = on_settled ?c (answer ?g (request_of ?c (DeleteWebhook ''wh_001'')) ())" .
  then have res: "fst (fst (invoke_obj ?c ?g (DeleteWebhook ''wh_001'') ())) = ?e"
    unfolding settled .
  from obj res have one: "invoke_obj ?c ?g (DeleteWebhook ''wh_001'') () = ((?e, ?c), ())"
    by (simp add: prod_eq_iff del: invoke_obj.simps)
  from t [THEN conjunct2, THEN conjunct2, THEN conjunct1] tm
  have two: "on_settled (test_client None) (Rejected (Error ''AbortError'' []))
      = on_settled ?c (Rejected (Error ''AbortError'' []))"
    by (rule mp)
  from t [THEN conjunct2, THEN conjunct2, THEN conjunct2, THEN conjunct1] same
  have three: "fst (fst (invoke_obj ?c ?f (DeleteWebhook ''wh_001'') ()))
      = fst (fst (invoke_obj ?c (tracing ?f) (DeleteWebhook ''wh_001'') ((), [])))"
    by (rule mp)
  from t [THEN conjunct2, THEN conjunct2, THEN conjunct2, THEN conjunct2, THEN conjunct1]
  have four: "snd (fst (run_obj ?c ?g ?calls ())) = ?c" .
  from t [THEN conjunct2, THEN conjunct2, THEN conjunct2, THEN conjunct2, THEN conjunct2,
      THEN conjunct2, THEN conjunct1]
  have five: "length (fst (fst (run_obj ?c ?g ?calls ()))) = 2"
    by simp
  from t [THEN conjunct2, THEN conjunct2, THEN conjunct2, THEN conjunct2, THEN conjunct2,
      THEN conjunct2, THEN conjunct2]
  have "\<forall>i < length ?calls. fst (fst (run_obj ?c ?g ?calls ())) ! i
      = on_settled ?c (answer ?g (request_of ?c (?calls ! i)) (snd (run_obj ?c ?g (take i ?calls) ())))" .
  then have "\<forall>i < length ?calls. fst (fst (run_obj ?c ?g ?calls ())) ! i = ?e"
    unfolding settled .
  then have six: "fst (fst (run_obj ?c ?g ?calls ())) ! 1 = ?e"
    by simp
  from one tm two three four five six show ?thesis
    by (intro conjI)
qed

end
